theory Spec2Isabelle
  imports Complex_Main "HOL-Library.Word"
begin

section \<open>The pyuv Timer handle (src/timer.c)\<close>

text \<open>
  A shallow embedding of \<^verbatim>\<open>timer.c\<close>: the \<^verbatim>\<open>Timer\<close> object, the native
  \<^verbatim>\<open>uv_timer_t\<close> blocks it allocates, the reference counts it touches and the close
  requests it hands to the loop. Every C function of the file is a HOL function on an
  explicit world; a Python exception is the result \<open>Raise\<close>, and a step whose
  behaviour C leaves undefined (a call through a null or freed handle, a conversion out of
  range) is the result \<open>Fault\<close>.
\<close>

subsection \<open>C doubles\<close>

text \<open>
  A \<^verbatim>\<open>double\<close> is a binary64 value: a finite real (both zeros are \<open>Finite 0\<close>; no
  operation of the file tells them apart), an infinity or a NaN. An arithmetic result is
  rounded to the nearest representable value, ties to the even significand; every
  operation is evaluated in the format itself, with no wider intermediate precision.
\<close>

datatype double = Finite real | PosInf | NegInf | NaN

definition round_half_even :: "real \<Rightarrow> int" where
  "round_half_even q =
     (let f = \<lfloor>q\<rfloor>; d = q - of_int f
      in if d < 1 / 2 then f else if 1 / 2 < d then f + 1 else if even f then f else f + 1)"

definition ulp_exponent :: "real \<Rightarrow> int" where
  "ulp_exponent r = max (\<lfloor>log 2 \<bar>r\<bar>\<rfloor> - 52) (- 1074)"

definition round_double :: "real \<Rightarrow> double" where
  "round_double r =
     (if r = 0 then Finite 0
      else let e = ulp_exponent r;
               v = of_int (round_half_even (\<bar>r\<bar> / 2 powi e)) * 2 powi e
           in if 2 ^ 1024 \<le> v then (if 0 < r then PosInf else NegInf)
              else Finite (sgn r * v))"

text \<open>\<^verbatim>\<open>x < 0.0\<close>\<close>

definition lt_zero :: "double \<Rightarrow> bool" where
  "lt_zero x = (case x of Finite r \<Rightarrow> r < 0 | PosInf \<Rightarrow> False | NegInf \<Rightarrow> True | NaN \<Rightarrow> False)"

text \<open>\<^verbatim>\<open>x * 1000\<close>\<close>

definition times_1000 :: "double \<Rightarrow> double" where
  "times_1000 x =
     (case x of Finite r \<Rightarrow> round_double (r * 1000)
      | PosInf \<Rightarrow> PosInf | NegInf \<Rightarrow> NegInf | NaN \<Rightarrow> NaN)"

text \<open>\<^verbatim>\<open>x / 1000.0\<close>\<close>

definition div_1000 :: "double \<Rightarrow> double" where
  "div_1000 x =
     (case x of Finite r \<Rightarrow> round_double (r / 1000)
      | PosInf \<Rightarrow> PosInf | NegInf \<Rightarrow> NegInf | NaN \<Rightarrow> NaN)"

text \<open>
  \<^verbatim>\<open>(int64_t)x\<close>: the fraction is discarded (towards zero); the conversion is undefined
  (\<open>None\<close>) when the truncated value is not an \<^verbatim>\<open>int64_t\<close>, and for infinities and NaN.
\<close>

definition to_int64 :: "double \<Rightarrow> 64 word option" where
  "to_int64 x =
     (case x of
        Finite r \<Rightarrow>
          (let t = (if 0 \<le> r then \<lfloor>r\<rfloor> else \<lceil>r\<rceil>)
           in if - (2 ^ 63) \<le> t \<and> t < 2 ^ 63 then Some (word_of_int t) else None)
      | PosInf \<Rightarrow> None | NegInf \<Rightarrow> None | NaN \<Rightarrow> None)"

text \<open>The conversion of an \<^verbatim>\<open>int64_t\<close> operand to \<^verbatim>\<open>double\<close>.\<close>

definition of_int64 :: "64 word \<Rightarrow> double" where
  "of_int64 n = round_double (of_int (sint n))"

text \<open>A real number is a value of the format when rounding leaves it as it is.\<close>

definition is_double :: "real \<Rightarrow> bool" where
  "is_double x = (round_double x = Finite x)"

subsection \<open>Python objects, exceptions, results\<close>

text \<open>
  Python objects as far as the file inspects them: identity with \<^verbatim>\<open>Py_None\<close>,
  \<^verbatim>\<open>PyCallable_Check\<close>, \<^verbatim>\<open>PyFloat_AsDouble\<close>, and being a \<^verbatim>\<open>Loop\<close>.
\<close>

datatype pyobj = Py_None | PyFunction nat | PyFloat double | PyLoop nat | PyOther nat

definition PyCallable_Check :: "pyobj \<Rightarrow> bool" where
  "PyCallable_Check x = (case x of PyFunction _ \<Rightarrow> True | _ \<Rightarrow> False)"

definition PyFloat_AsDouble :: "pyobj \<Rightarrow> double option" where
  "PyFloat_AsDouble x = (case x of PyFloat d \<Rightarrow> Some d | _ \<Rightarrow> None)"

text \<open>
  The file raises \<^verbatim>\<open>PyExc_TimerError\<close>, \<^verbatim>\<open>PyExc_TypeError\<close> and
  \<^verbatim>\<open>PyExc_ValueError\<close> with a message, \<^verbatim>\<open>PyErr_NoMemory\<close>, the exception left by a
  failed argument parse or float conversion (\<open>ArgumentError\<close>), and the
  \<^verbatim>\<open>PyExc_TimerError\<close> that \<^verbatim>\<open>raise_uv_exception\<close> builds from the loop's last
  error (\<open>LoopTimerError\<close>).
\<close>

datatype exc =
    TimerError string | TypeError string | ValueError string
  | MemoryError | ArgumentError | LoopTimerError

datatype fault = NullDereference | UseAfterFree | CastOutOfRange | AssertionFailed

datatype 'a result = Return 'a | Raise exc | Fault fault

subsection \<open>The Timer object and the native world\<close>

type_synonym addr = nat

text \<open>
  Modelled from the spec: the declaration of \<^verbatim>\<open>struct Timer\<close> is in a header that is
  not part of the sources; the fields are those \<^verbatim>\<open>timer.c\<close> reads and writes. A
  pointer field is an option, \<open>None\<close> for \<^verbatim>\<open>NULL\<close>.
\<close>

record Timer =
  initialized :: bool
  active :: bool
  closed :: bool
  callback :: "pyobj option"
  data :: "pyobj option"
  loop :: "pyobj option"
  uv_timer :: "addr option"

datatype objref = TimerObject

text \<open>
  Modelled from the spec: \<^verbatim>\<open>uv_timer_t\<close> belongs to the loop library. The block
  carries the \<^verbatim>\<open>data\<close> pointer the file sets, and what the loop interface of the
  spec (register, cancel, rearm, get and set repeat, request close) stores in it.
\<close>

record uv_timer_t =
  h_data :: "objref option"
  h_scheduled :: bool
  h_timeout :: "64 word"
  h_repeat :: "64 word"
  h_closing :: bool

text \<open>
  The world of one Timer: the object and its reference count (\<open>self_freed\<close> once
  \<^verbatim>\<open>tp_free\<close> has run), the reference counts of the other objects, the blocks handed
  out by \<^verbatim>\<open>PyMem_Malloc\<close> and not yet freed, every \<^verbatim>\<open>uv_close\<close> made so far and
  those whose callback the loop has not run yet, and the user callbacks invoked with
  their arguments, together with the failures reported as unraisable.
\<close>

record world =
  self :: Timer
  self_refcnt :: int
  self_freed :: bool
  obj_refcnt :: "pyobj \<Rightarrow> int"
  heap :: "addr \<rightharpoonup> uv_timer_t"
  next_addr :: addr
  uv_close_calls :: "addr list"
  pending_close :: "addr list"
  invoked :: "(pyobj option \<times> pyobj option) list"
  unraisable :: "pyobj option list"

text \<open>
  What the environment answers: whether \<^verbatim>\<open>PyMem_Malloc\<close> fails, and the status
  returned by each loop call.
\<close>

record uv_env =
  malloc_fails :: bool
  init_status :: int
  start_status :: int
  stop_status :: int
  again_status :: int

definition ok_env :: uv_env where
  "ok_env = \<lparr>malloc_fails = False, init_status = 0, start_status = 0,
             stop_status = 0, again_status = 0\<rparr>"

subsection \<open>Reference counting and memory\<close>

definition Py_INCREF :: "pyobj \<Rightarrow> world \<Rightarrow> world" where
  "Py_INCREF x w = w\<lparr>obj_refcnt := (obj_refcnt w)(x := obj_refcnt w x + 1)\<rparr>"

definition Py_DECREF :: "pyobj \<Rightarrow> world \<Rightarrow> world" where
  "Py_DECREF x w = w\<lparr>obj_refcnt := (obj_refcnt w)(x := obj_refcnt w x - 1)\<rparr>"

definition Py_XDECREF :: "pyobj option \<Rightarrow> world \<Rightarrow> world" where
  "Py_XDECREF p w = (case p of None \<Rightarrow> w | Some x \<Rightarrow> Py_DECREF x w)"

text \<open>\<^verbatim>\<open>Timer_tp_clear\<close>: \<^verbatim>\<open>Py_CLEAR\<close> of data, callback and loop.\<close>

definition Timer_tp_clear :: "world \<Rightarrow> world" where
  "Timer_tp_clear w =
     (let w1 = Py_XDECREF (data (self w)) (w\<lparr>self := (self w)\<lparr>data := None\<rparr>\<rparr>);
          w2 = Py_XDECREF (callback (self w1)) (w1\<lparr>self := (self w1)\<lparr>callback := None\<rparr>\<rparr>)
      in Py_XDECREF (loop (self w2)) (w2\<lparr>self := (self w2)\<lparr>loop := None\<rparr>\<rparr>))"

text \<open>\<^verbatim>\<open>Timer_tp_dealloc\<close>: clear, then \<^verbatim>\<open>tp_free\<close>.\<close>

definition Timer_tp_dealloc :: "world \<Rightarrow> world" where
  "Timer_tp_dealloc w = (Timer_tp_clear w)\<lparr>self_freed := True\<rparr>"

text \<open>
  \<^verbatim>\<open>Py_INCREF\<close> and \<^verbatim>\<open>Py_DECREF\<close> of the Timer itself; the object is deallocated
  when its count reaches zero.
\<close>

definition Py_INCREF_self :: "world \<Rightarrow> world" where
  "Py_INCREF_self w = w\<lparr>self_refcnt := self_refcnt w + 1\<rparr>"

definition Py_DECREF_self :: "world \<Rightarrow> world" where
  "Py_DECREF_self w =
     (let w1 = w\<lparr>self_refcnt := self_refcnt w - 1\<rparr>
      in if self_refcnt w1 = 0 then Timer_tp_dealloc w1 else w1)"

definition blank_handle :: uv_timer_t where
  "blank_handle = \<lparr>h_data = None, h_scheduled = False, h_timeout = 0, h_repeat = 0,
                   h_closing = False\<rparr>"

definition PyMem_Malloc :: "uv_env \<Rightarrow> world \<Rightarrow> addr option \<times> world" where
  "PyMem_Malloc env w =
     (if malloc_fails env then (None, w)
      else (Some (next_addr w),
            w\<lparr>heap := (heap w)(next_addr w \<mapsto> blank_handle), next_addr := Suc (next_addr w)\<rparr>))"

definition PyMem_Free :: "addr \<Rightarrow> world \<Rightarrow> world" where
  "PyMem_Free a w = w\<lparr>heap := (heap w)(a := None)\<rparr>"

subsection \<open>The loop interface\<close>

text \<open>
  Modelled from the spec: the loop library is not part of the sources. Each call reads
  or writes the block it is given, so a null pointer or a freed block is a fault; the
  status it returns is the environment's.
\<close>

definition deref :: "addr option \<Rightarrow> world \<Rightarrow> fault + (addr \<times> uv_timer_t)" where
  "deref p w =
     (case p of None \<Rightarrow> Inl NullDereference
      | Some a \<Rightarrow> (case heap w a of None \<Rightarrow> Inl UseAfterFree | Some h \<Rightarrow> Inr (a, h)))"

definition store :: "addr \<Rightarrow> uv_timer_t \<Rightarrow> world \<Rightarrow> world" where
  "store a h w = w\<lparr>heap := (heap w)(a \<mapsto> h)\<rparr>"

definition uv_timer_init :: "uv_env \<Rightarrow> addr \<Rightarrow> world \<Rightarrow> int \<times> world" where
  "uv_timer_init env a w =
     (if init_status env \<noteq> 0 then (init_status env, w)
      else (0, store a blank_handle w))"

definition uv_timer_start ::
    "uv_env \<Rightarrow> addr option \<Rightarrow> 64 word \<Rightarrow> 64 word \<Rightarrow> world \<Rightarrow> fault + (int \<times> world)" where
  "uv_timer_start env p t r w =
     (case deref p w of Inl f \<Rightarrow> Inl f
      | Inr (a, h) \<Rightarrow>
          if start_status env \<noteq> 0 then Inr (start_status env, w)
          else Inr (0, store a (h\<lparr>h_scheduled := True, h_timeout := t, h_repeat := r\<rparr>) w))"

definition uv_timer_stop :: "uv_env \<Rightarrow> addr option \<Rightarrow> world \<Rightarrow> fault + (int \<times> world)" where
  "uv_timer_stop env p w =
     (case deref p w of Inl f \<Rightarrow> Inl f
      | Inr (a, h) \<Rightarrow>
          if stop_status env \<noteq> 0 then Inr (stop_status env, w)
          else Inr (0, store a (h\<lparr>h_scheduled := False\<rparr>) w))"

text \<open>
  ``Stop the timer, and if it is repeating restart it using the repeat value as the
  timeout'' (the docstring of \<^verbatim>\<open>again\<close> in the method table).
\<close>

definition uv_timer_again :: "uv_env \<Rightarrow> addr option \<Rightarrow> world \<Rightarrow> fault + (int \<times> world)" where
  "uv_timer_again env p w =
     (case deref p w of Inl f \<Rightarrow> Inl f
      | Inr (a, h) \<Rightarrow>
          if again_status env \<noteq> 0 then Inr (again_status env, w)
          else Inr (0, store a (h\<lparr>h_scheduled := (h_repeat h \<noteq> 0), h_timeout := h_repeat h\<rparr>) w))"

definition uv_timer_get_repeat :: "addr option \<Rightarrow> world \<Rightarrow> fault + 64 word" where
  "uv_timer_get_repeat p w =
     (case deref p w of Inl f \<Rightarrow> Inl f | Inr (a, h) \<Rightarrow> Inr (h_repeat h))"

definition uv_timer_set_repeat :: "addr option \<Rightarrow> 64 word \<Rightarrow> world \<Rightarrow> fault + world" where
  "uv_timer_set_repeat p r w =
     (case deref p w of Inl f \<Rightarrow> Inl f | Inr (a, h) \<Rightarrow> Inr (store a (h\<lparr>h_repeat := r\<rparr>) w))"

text \<open>
  \<^verbatim>\<open>uv_close(handle, on_timer_close)\<close>: the request is recorded; the loop runs the
  callback later (\<open>loop_run_close\<close>).
\<close>

definition uv_close :: "addr option \<Rightarrow> world \<Rightarrow> fault + world" where
  "uv_close p w =
     (case deref p w of Inl f \<Rightarrow> Inl f
      | Inr (a, h) \<Rightarrow>
          Inr ((store a (h\<lparr>h_scheduled := False, h_closing := True\<rparr>) w)
                 \<lparr>uv_close_calls := uv_close_calls w @ [a],
                  pending_close := pending_close w @ [a]\<rparr>))"

subsection \<open>The trampolines\<close>

text \<open>
  \<^verbatim>\<open>on_timer_close\<close>, run by the loop for a close request: drop the reference the
  handle held on the Timer, detach the handle and free it.
\<close>

definition on_timer_close :: "addr option \<Rightarrow> world \<Rightarrow> unit result \<times> world" where
  "on_timer_close p w =
     (case p of None \<Rightarrow> (Fault AssertionFailed, w)
      | Some a \<Rightarrow>
          (case heap w a of None \<Rightarrow> (Fault UseAfterFree, w)
           | Some h \<Rightarrow>
               (case h_data h of None \<Rightarrow> (Fault NullDereference, w)
                | Some TimerObject \<Rightarrow>
                    (Return (),
                     PyMem_Free a (store a (h\<lparr>h_data := None\<rparr>) (Py_DECREF_self w))))))"

text \<open>The loop runs the callback of its oldest pending close request, if there is one.\<close>

definition loop_run_close :: "world \<Rightarrow> unit result \<times> world" where
  "loop_run_close w =
     (case pending_close w of [] \<Rightarrow> (Return (), w)
      | a # rest \<Rightarrow> on_timer_close (Some a) (w\<lparr>pending_close := rest\<rparr>))"

text \<open>
  \<^verbatim>\<open>PyObject_CallFunctionObjArgs(callback, self, self->data, NULL)\<close>: the call is
  recorded and the user's code \<open>user\<close> runs on the world; it returns \<open>None\<close>
  (\<^verbatim>\<open>NULL\<close>) when it raised.
\<close>

definition PyObject_CallFunctionObjArgs ::
    "(world \<Rightarrow> pyobj option \<times> world) \<Rightarrow> pyobj option \<Rightarrow> pyobj option \<Rightarrow> world
       \<Rightarrow> pyobj option \<times> world" where
  "PyObject_CallFunctionObjArgs user f d w = user (w\<lparr>invoked := invoked w @ [(f, d)]\<rparr>)"

text \<open>\<^verbatim>\<open>on_timer_callback\<close>, run by the loop at each firing of the handle.\<close>

definition on_timer_callback ::
    "(world \<Rightarrow> pyobj option \<times> world) \<Rightarrow> addr option \<Rightarrow> int \<Rightarrow> world \<Rightarrow> unit result \<times> world" where
  "on_timer_callback user p status w =
     (case p of None \<Rightarrow> (Fault AssertionFailed, w)
      | Some a \<Rightarrow>
          if status \<noteq> 0 then (Fault AssertionFailed, w)
          else (case heap w a of None \<Rightarrow> (Fault UseAfterFree, w)
           | Some h \<Rightarrow>
               (case h_data h of None \<Rightarrow> (Fault AssertionFailed, w)
                | Some TimerObject \<Rightarrow>
                    (let w1 = Py_INCREF_self w;
                         w2 = (if callback (self w1) \<noteq> Some Py_None
                               then (let (res, w3) = PyObject_CallFunctionObjArgs user
                                                      (callback (self w1)) (data (self w1)) w1;
                                         w4 = (if res = None
                                               then w3\<lparr>unraisable :=
                                                          unraisable w3 @ [callback (self w3)]\<rparr>
                                               else w3)
                                     in Py_XDECREF res w4)
                               else w1)
                     in (Return (), Py_DECREF_self w2)))))"

subsection \<open>The methods\<close>

text \<open>
  \<^verbatim>\<open>PyArg_ParseTupleAndKeywords(args, kwargs, "Odd|O:__init__", ...)\<close> on the
  positional arguments: a callback, two floats and an optional data object, which
  defaults to \<^verbatim>\<open>Py_None\<close>.
\<close>

definition parse_start_args :: "pyobj list \<Rightarrow> (pyobj \<times> double \<times> double \<times> pyobj) option" where
  "parse_start_args args =
     (case args of
        [c, PyFloat t, PyFloat r] \<Rightarrow> Some (c, t, r, Py_None)
      | [c, PyFloat t, PyFloat r, d] \<Rightarrow> Some (c, t, r, d)
      | _ \<Rightarrow> None)"

text \<open>The \<^verbatim>\<open>error:\<close> label of \<^verbatim>\<open>Timer_func_start\<close>.\<close>

definition start_error ::
    "addr option \<Rightarrow> pyobj \<Rightarrow> pyobj \<Rightarrow> exc \<Rightarrow> world \<Rightarrow> unit result \<times> world" where
  "start_error uvt cb d e w =
     (let w1 = (case uvt of None \<Rightarrow> w
                | Some a \<Rightarrow>
                    (case heap w a of None \<Rightarrow> w
                     | Some h \<Rightarrow> PyMem_Free a (store a (h\<lparr>h_data := None\<rparr>) w)));
          w2 = Py_DECREF d (Py_DECREF cb w1)
      in (Raise e, w2\<lparr>self := (self w2)\<lparr>uv_timer := None\<rparr>\<rparr>))"

text \<open>
  \<^verbatim>\<open>Timer_func_start\<close> from \<^verbatim>\<open>uv_timer_init\<close> on, with the fresh block \<open>a\<close>
  in the local \<^verbatim>\<open>uv_timer\<close>.
\<close>

definition start_native ::
    "uv_env \<Rightarrow> addr \<Rightarrow> pyobj \<Rightarrow> double \<Rightarrow> double \<Rightarrow> pyobj \<Rightarrow> world \<Rightarrow> unit result \<times> world" where
  "start_native env a cb timeout repeat d w =
     (case uv_timer_init env a w of (r, w1) \<Rightarrow>
        if r \<noteq> 0 then start_error (Some a) cb d LoopTimerError w1
        else
          let w2 = (case heap w1 a of None \<Rightarrow> w1
                    | Some h \<Rightarrow> store a (h\<lparr>h_data := Some TimerObject\<rparr>) w1);
              w3 = w2\<lparr>self := (self w2)\<lparr>uv_timer := Some a\<rparr>\<rparr>
          in (case to_int64 (times_1000 timeout) of
                None \<Rightarrow> (Fault CastOutOfRange, w3)
              | Some t \<Rightarrow>
                  (case to_int64 (times_1000 repeat) of
                     None \<Rightarrow> (Fault CastOutOfRange, w3)
                   | Some rp \<Rightarrow>
                       (case uv_timer_start env (uv_timer (self w3)) t rp w3 of
                          Inl f \<Rightarrow> (Fault f, w3)
                        | Inr (r2, w4) \<Rightarrow>
                            if r2 \<noteq> 0 then start_error (Some a) cb d LoopTimerError w4
                            else (Return (),
                                  Py_INCREF_self
                                    (w4\<lparr>self := (self w4)\<lparr>active := True\<rparr>\<rparr>))))))"

definition Timer_func_start :: "uv_env \<Rightarrow> pyobj list \<Rightarrow> world \<Rightarrow> unit result \<times> world" where
  "Timer_func_start env args w =
     (if closed (self w) then (Raise (TimerError ''Timer is closed''), w)
      else if active (self w) then (Raise (TimerError ''Timer is already active.''), w)
      else case parse_start_args args of None \<Rightarrow> (Raise ArgumentError, w)
      | Some (cb, timeout, repeat, d) \<Rightarrow>
          if \<not> PyCallable_Check cb
          then (Raise (TypeError ''a callable or None is required''), w)
          else
            let tmp = callback (self w);
                w1 = Py_INCREF cb w;
                w2 = w1\<lparr>self := (self w1)\<lparr>callback := Some cb\<rparr>\<rparr>;
                w3 = Py_XDECREF tmp w2
            in if lt_zero timeout
               then start_error None cb d (ValueError ''a positive value or zero is required'') w3
               else if lt_zero repeat
               then start_error None cb d (ValueError ''a positive value or zero is required'') w3
               else
                 let tmp2 = data (self w3);
                     w4 = Py_INCREF d w3;
                     w5 = w4\<lparr>self := (self w4)\<lparr>data := Some d\<rparr>\<rparr>;
                     w6 = Py_XDECREF tmp2 w5
                 in (case PyMem_Malloc env w6 of
                       (None, w7) \<Rightarrow> start_error None cb d MemoryError w7
                     | (Some a, w7) \<Rightarrow> start_native env a cb timeout repeat d w7))"

definition Timer_func_stop :: "uv_env \<Rightarrow> world \<Rightarrow> unit result \<times> world" where
  "Timer_func_stop env w =
     (if \<not> active (self w) then (Raise (TimerError ''Timer is not active.''), w)
      else case uv_timer_stop env (uv_timer (self w)) w of
             Inl f \<Rightarrow> (Fault f, w)
           | Inr (r, w1) \<Rightarrow>
               if r \<noteq> 0 then (Raise LoopTimerError, w1)
               else (Return (), w1\<lparr>self := (self w1)\<lparr>active := False\<rparr>\<rparr>))"

definition Timer_func_again :: "uv_env \<Rightarrow> world \<Rightarrow> unit result \<times> world" where
  "Timer_func_again env w =
     (if closed (self w) then (Raise (TimerError ''Timer is closed''), w)
      else case uv_timer_again env (uv_timer (self w)) w of
             Inl f \<Rightarrow> (Fault f, w)
           | Inr (r, w1) \<Rightarrow>
               if r \<noteq> 0 then (Raise LoopTimerError, w1) else (Return (), w1))"

definition Timer_func_close :: "world \<Rightarrow> unit result \<times> world" where
  "Timer_func_close w =
     (let w1 = w\<lparr>self := (self w)\<lparr>closed := True\<rparr>\<rparr>
      in if uv_timer (self w1) \<noteq> None
         then (case uv_close (uv_timer (self w1)) w1 of
                 Inl f \<Rightarrow> (Fault f, w1)
               | Inr w2 \<Rightarrow> (Return (), w2))
         else (Return (), w1))"

subsection \<open>The repeat property\<close>

definition Timer_repeat_get :: "world \<Rightarrow> pyobj result \<times> world" where
  "Timer_repeat_get w =
     (if closed (self w) then (Raise (TimerError ''Timer is closed''), w)
      else case uv_timer_get_repeat (uv_timer (self w)) w of
             Inl f \<Rightarrow> (Fault f, w)
           | Inr n \<Rightarrow> (Return (PyFloat (div_1000 (of_int64 n))), w))"

definition Timer_repeat_set :: "pyobj option \<Rightarrow> world \<Rightarrow> unit result \<times> world" where
  "Timer_repeat_set v w =
     (if closed (self w) then (Raise (TimerError ''Timer is closed''), w)
      else case v of None \<Rightarrow> (Raise (TypeError ''cannot delete attribute''), w)
      | Some x \<Rightarrow>
          (case PyFloat_AsDouble x of None \<Rightarrow> (Raise ArgumentError, w)
           | Some repeat \<Rightarrow>
               if lt_zero repeat
               then (Raise (ValueError ''a positive float or 0.0 is required''), w)
               else (case to_int64 (times_1000 repeat) of
                       None \<Rightarrow> (Fault CastOutOfRange, w)
                     | Some n \<Rightarrow>
                         (case uv_timer_set_repeat (uv_timer (self w)) n w of
                            Inl f \<Rightarrow> (Fault f, w)
                          | Inr w1 \<Rightarrow> (Return (), w1)))))"

subsection \<open>Construction\<close>

text \<open>
  \<^verbatim>\<open>Timer_tp_new\<close>: \<^verbatim>\<open>PyType_GenericNew\<close> hands out a zeroed object with one
  reference; \<open>rc\<close> gives the reference counts of the other objects at that moment.
\<close>

definition Timer_tp_new :: "(pyobj \<Rightarrow> int) \<Rightarrow> world" where
  "Timer_tp_new rc =
     \<lparr>self = \<lparr>initialized = False, active = False, closed = False, callback = None,
              data = None, loop = None, uv_timer = None\<rparr>,
      self_refcnt = 1, self_freed = False, obj_refcnt = rc, heap = Map.empty,
      next_addr = 1, uv_close_calls = [], pending_close = [], invoked = [],
      unraisable = []\<rparr>"

text \<open>\<^verbatim>\<open>PyArg_ParseTuple(args, "O!:__init__", &LoopType, &loop)\<close> wants one Loop.\<close>

definition Timer_tp_init :: "pyobj list \<Rightarrow> world \<Rightarrow> unit result \<times> world" where
  "Timer_tp_init args w =
     (if initialized (self w) then (Raise (TimerError ''Object already initialized''), w)
      else case args of
        [PyLoop l] \<Rightarrow>
          (let tmp = loop (self w);
               w1 = Py_INCREF (PyLoop l) w;
               w2 = w1\<lparr>self := (self w1)\<lparr>loop := Some (PyLoop l)\<rparr>\<rparr>;
               w3 = Py_XDECREF tmp w2
           in (Return (),
               w3\<lparr>self := (self w3)\<lparr>initialized := True, active := False, closed := False,
                                      uv_timer := None\<rparr>\<rparr>))
      | _ \<Rightarrow> (Raise ArgumentError, w))"

subsection \<open>The error kinds of the specification\<close>

text \<open>
  The file has one exception class for the timer, \<^verbatim>\<open>PyExc_TimerError\<close>; the kinds of
  the specification are told apart by the message.
\<close>

abbreviation TimerClosedError :: exc where
  "TimerClosedError \<equiv> TimerError ''Timer is closed''"

abbreviation TimerAlreadyActiveError :: exc where
  "TimerAlreadyActiveError \<equiv> TimerError ''Timer is already active.''"

abbreviation TimerNotActiveError :: exc where
  "TimerNotActiveError \<equiv> TimerError ''Timer is not active.''"

subsection \<open>Scenarios\<close>

text \<open>
  A new Timer in a world where every other object has one reference; the same Timer
  after \<^verbatim>\<open>Timer(loop)\<close>; and after \<^verbatim>\<open>start(f1, 0.0, 0.0, d7)\<close> with a cooperating
  environment.
\<close>

definition fresh :: world where
  "fresh = Timer_tp_new (\<lambda>_. 1)"

definition idle :: world where
  "idle = snd (Timer_tp_init [PyLoop 0] fresh)"

definition armed :: world where
  "armed = snd (Timer_func_start ok_env
                  [PyFunction 1, PyFloat (Finite 0), PyFloat (Finite 0), PyOther 7] idle)"

text \<open>The armed timer after \<^verbatim>\<open>close()\<close>, and after a second \<^verbatim>\<open>close()\<close>.\<close>

definition closed_once :: world where
  "closed_once = snd (Timer_func_close armed)"

definition closed_twice :: world where
  "closed_twice = snd (Timer_func_close closed_once)"

text \<open>
  The armed timer after \<^verbatim>\<open>stop()\<close>; after a second \<^verbatim>\<open>start(f1, 0.0, 0.0, d7)\<close>;
  and after \<^verbatim>\<open>close()\<close> and the turn of the loop that runs the close trampoline.
\<close>

definition stopped :: world where
  "stopped = snd (Timer_func_stop ok_env armed)"

definition rearmed :: world where
  "rearmed = snd (Timer_func_start ok_env
                    [PyFunction 1, PyFloat (Finite 0), PyFloat (Finite 0), PyOther 7] stopped)"

definition rearmed_closed :: world where
  "rearmed_closed = snd (loop_run_close (snd (Timer_func_close rearmed)))"

text \<open>\<^verbatim>\<open>start(f2, -1.0, 0.0, d8)\<close> on the stopped timer.\<close>

definition failed_restart :: "unit result \<times> world" where
  "failed_restart = Timer_func_start ok_env
                      [PyFunction 2, PyFloat (Finite (- 1)), PyFloat (Finite 0), PyOther 8] stopped"

text \<open>
  \<^verbatim>\<open>start(f1, 0.0, 1.0, d7)\<close> on the initialised timer, a repeating timer; the same
  timer after \<^verbatim>\<open>stop()\<close> and \<^verbatim>\<open>again()\<close>; and \<^verbatim>\<open>start(f2, 5.0, 1.0, d8)\<close>
  on it.
\<close>

definition repeating :: world where
  "repeating = snd (Timer_func_start ok_env
                      [PyFunction 1, PyFloat (Finite 0), PyFloat (Finite 1), PyOther 7] idle)"

definition rearmed_by_again :: world where
  "rearmed_by_again = snd (Timer_func_again ok_env (snd (Timer_func_stop ok_env repeating)))"

definition second_start :: "unit result \<times> world" where
  "second_start = Timer_func_start ok_env
                    [PyFunction 2, PyFloat (Finite 5), PyFloat (Finite 1), PyOther 8]
                    rearmed_by_again"

section \<open>Properties\<close>

lemmas timer_defs =
  Timer_tp_new_def Timer_tp_init_def Timer_func_start_def start_native_def start_error_def
  Timer_func_stop_def Timer_func_again_def Timer_func_close_def Timer_repeat_get_def
  Timer_repeat_set_def parse_start_args_def PyCallable_Check_def PyFloat_AsDouble_def
  Py_INCREF_def Py_DECREF_def Py_XDECREF_def Py_INCREF_self_def Py_DECREF_self_def
  PyMem_Malloc_def PyMem_Free_def deref_def store_def uv_timer_init_def uv_timer_start_def
  uv_timer_stop_def uv_timer_again_def uv_timer_get_repeat_def uv_timer_set_repeat_def
  uv_close_def on_timer_close_def loop_run_close_def ok_env_def blank_handle_def
  lt_zero_def times_1000_def to_int64_def Timer_tp_clear_def Timer_tp_dealloc_def Let_def

subsection \<open>Rounding\<close>

lemma round_double_zero: "round_double 0 = Finite 0"
  by (simp add: round_double_def)

lemma round_half_even_of_int: "round_half_even (of_int n) = n"
  by (simp add: round_half_even_def)

lemma round_half_even_nonneg: "0 \<le> q \<Longrightarrow> 0 \<le> round_half_even q"
  by (simp add: round_half_even_def Let_def)

lemma floor_log2_eq:
  assumes "2 powi n \<le> x" and "x < 2 powi (n + 1)"
  shows "\<lfloor>log 2 x\<rfloor> = n"
proof -
  have "0 < (2::real) powi n" by simp
  with assms(1) have pos: "0 < x" by linarith
  have "of_int n \<le> log 2 x"
    using assms(1) pos by (simp add: le_log_iff powr_real_of_int')
  moreover have "log 2 x < of_int (n + 1)"
  proof -
    have "(2::real) powr (of_int (n + 1)) = 2 powi (n + 1)"
      by (rule powr_real_of_int') simp_all
    then have "x < 2 powr (of_int (n + 1))"
      using assms(2) by simp
    then show ?thesis using pos by (simp add: log_less_iff)
  qed
  ultimately show ?thesis by (simp add: floor_eq_iff)
qed

text \<open>Rounding a positive number whose binade is known.\<close>

lemma round_double_eval:
  assumes "2 powi n \<le> r" and "r < 2 powi (n + 1)"
  shows "round_double r =
     (let e = max (n - 52) (- 1074);
          v = of_int (round_half_even (r / 2 powi e)) * 2 powi e
      in if 2 ^ 1024 \<le> v then PosInf else Finite v)"
proof -
  have "0 < (2::real) powi n" by simp
  with assms(1) have pos: "0 < r" by linarith
  have "\<lfloor>log 2 \<bar>r\<bar>\<rfloor> = n" using floor_log2_eq [OF assms] pos by simp
  then show ?thesis using pos by (simp add: round_double_def ulp_exponent_def Let_def)
qed

text \<open>
  A significand below \<open>2 ^ 53\<close> with an exponent of the format is rounded to itself.
\<close>

lemma round_double_representable:
  assumes m: "0 < m" "m < 2 ^ 53" and e: "- 1074 \<le> e" "e \<le> 971"
  shows "round_double (of_int m * 2 powi e) = Finite (of_int m * 2 powi e)"
proof -
  define r :: real where "r = of_int m * 2 powi e"
  have rpos: "0 < r" using m by (simp add: r_def)
  define E where "E = ulp_exponent r"
  have "r < 2 ^ 53 * 2 powi e"
    using m unfolding r_def by simp
  also have "\<dots> = 2 powi (e + 53)"
    by (simp add: power_int_add)
  finally have lt: "r < 2 powi (e + 53)" .
  have "(2::real) powr (of_int (e + 53)) = 2 powi (e + 53)"
    by (rule powr_real_of_int') simp_all
  with lt rpos have "log 2 r < of_int (e + 53)"
    by (simp add: log_less_iff)
  then have "\<lfloor>log 2 r\<rfloor> < e + 53" by linarith
  then have Ee: "E \<le> e" using e rpos by (simp add: E_def ulp_exponent_def)
  define j where "j = nat (e - E)"
  have pw: "(2::real) powi e = 2 ^ j * 2 powi E"
  proof -
    have "(2::real) powi e = 2 powi (int j + E)" using Ee by (simp add: j_def)
    also have "\<dots> = 2 powi (int j) * 2 powi E" by (simp add: power_int_add)
    finally show ?thesis by simp
  qed
  have q: "\<bar>r\<bar> / 2 powi E = of_int (m * 2 ^ j)"
    using rpos by (simp add: r_def pw)
  have v: "of_int (round_half_even (\<bar>r\<bar> / 2 powi E)) * 2 powi E = r"
    unfolding q round_half_even_of_int by (simp add: r_def pw)
  define c :: int where "c = 971"
  have ec: "e \<le> c" using e by (simp add: c_def)
  have "(2::real) powi e \<le> 2 powi c"
    by (rule power_int_increasing [OF ec]) simp
  then have "r \<le> of_int m * 2 powi c"
    unfolding r_def using m by (intro mult_left_mono) auto
  also have "\<dots> < 2 ^ 53 * 2 powi c"
    using m by (intro mult_strict_right_mono) auto
  also have "\<dots> = 2 ^ 1024" by (simp add: c_def power_int_def)
  finally have small: "\<not> 2 ^ 1024 \<le> r" by simp
  have "round_double r = Finite r"
    using rpos small v by (simp add: round_double_def Let_def flip: E_def)
  then show ?thesis by (simp add: r_def)
qed

lemma round_double_int:
  assumes "0 \<le> k" and "k \<le> 2 ^ 53"
  shows "round_double (of_int k) = Finite (of_int k)"
proof -
  consider "k = 0" | "0 < k" "k < 2 ^ 53" | "k = 2 ^ 53" using assms by linarith
  then show ?thesis
  proof cases
    case 1
    then show ?thesis by (simp add: round_double_zero)
  next
    case 2
    then show ?thesis using round_double_representable [of k 0] by simp
  next
    case 3
    then show ?thesis using round_double_representable [of "2 ^ 52" 1] by simp
  qed
qed

lemma round_double_nonneg:
  assumes "0 \<le> r" and "round_double r = Finite y"
  shows "0 \<le> y"
proof (cases "r = 0")
  case True
  then show ?thesis using assms by (simp add: round_double_zero)
next
  case False
  then have "0 < r" using assms by simp
  then have "0 \<le> round_half_even (\<bar>r\<bar> / 2 powi ulp_exponent r)"
    by (intro round_half_even_nonneg) simp
  then show ?thesis
    using assms(2) \<open>0 < r\<close>
    by (auto simp: round_double_def Let_def split: if_splits)
qed

lemma sint_int64: "0 \<le> t \<Longrightarrow> t < 2 ^ 63 \<Longrightarrow> sint (word_of_int t :: 64 word) = t"
  by (simp add: sint_sbintrunc' signed_take_bit_int_eq_self)

text \<open>The values used below: \<open>10 ^ 19\<close>, \<open>72057594037929 / 8\<close>, \<open>3 / 2\<close>, \<open>3073 / 2048\<close>.\<close>

lemma big_is_double: "is_double (10 ^ 19)"
  using round_double_representable [of "5 ^ 19" 19] by (simp add: is_double_def)

lemma big_times:
  "times_1000 (Finite 10000000000000000000) = Finite 10000000000000000000000"
  using round_double_eval [of 73 "10 ^ 22"]
  by (simp add: times_1000_def round_half_even_def)

lemma tie_is_double: "is_double (72057594037929 / 8)"
  using round_double_representable [of 72057594037929 "- 3"]
  by (simp add: is_double_def power_int_minus)

lemma tie_times: "times_1000 (Finite (72057594037929 / 8)) = Finite 9007199254741124"
  using round_double_eval [of 53 9007199254741125]
  by (simp add: times_1000_def round_half_even_def)

lemma tie_back: "round_double 9007199254741124 = Finite 9007199254741124"
  using round_double_representable [of 4503599627370562 1] by simp

lemma tie_div: "div_1000 (Finite 9007199254741124) = Finite (4611686018427455 / 512)"
  using round_double_eval [of 43 "9007199254741124 / 1000"]
  by (simp add: div_1000_def round_half_even_def power_int_minus)

lemma half_is_double: "is_double (3 / 2)"
  using round_double_representable [of 3 "- 1"]
  by (simp add: is_double_def power_int_minus)

lemma half_times: "times_1000 (Finite (3 / 2)) = Finite 1500"
  using round_double_int [of 1500] by (simp add: times_1000_def)

lemma frac_is_double: "is_double (3073 / 2048)"
  using round_double_representable [of 3073 "- 11"]
  by (simp add: is_double_def power_int_minus)

lemma frac_times: "times_1000 (Finite (3073 / 2048)) = Finite (384125 / 256)"
  using round_double_representable [of 384125 "- 8"]
  by (simp add: times_1000_def power_int_minus)

lemma frac_read: "div_1000 (round_double (of_int \<lfloor>384125 / 256 :: real\<rfloor>)) = Finite (3 / 2)"
proof -
  have "\<lfloor>384125 / 256 :: real\<rfloor> = 1500" by simp
  then show ?thesis
    using round_double_int [of 1500] half_is_double
    by (simp add: div_1000_def is_double_def)
qed

subsection \<open>The scenario worlds, evaluated\<close>

lemmas scenario_defs = armed_def idle_def fresh_def round_double_zero

lemma idle_self:
  "self idle = \<lparr>initialized = True, active = False, closed = False, callback = None,
                 data = None, loop = Some (PyLoop 0), uv_timer = None\<rparr>"
  by (simp add: idle_def fresh_def timer_defs)

lemma idle_native:
  "heap idle = Map.empty" "uv_close_calls idle = []" "pending_close idle = []"
  "self_refcnt idle = 1"
  by (simp_all add: idle_def fresh_def timer_defs)

lemma start_idle_returns:
  "fst (Timer_func_start ok_env
          [PyFunction 1, PyFloat (Finite 0), PyFloat (Finite 0), PyOther 7] idle) = Return ()"
  by (simp add: idle_def fresh_def timer_defs round_double_zero)

lemma armed_self:
  "self armed = \<lparr>initialized = True, active = True, closed = False,
                  callback = Some (PyFunction 1), data = Some (PyOther 7),
                  loop = Some (PyLoop 0), uv_timer = Some 1\<rparr>"
  by (simp add: armed_def idle_def fresh_def timer_defs round_double_zero)

lemma armed_native:
  "heap armed = [1 \<mapsto> \<lparr>h_data = Some TimerObject, h_scheduled = True, h_timeout = 0,
                         h_repeat = 0, h_closing = False\<rparr>]"
  "uv_close_calls armed = []" "pending_close armed = []" "self_refcnt armed = 2"
  "next_addr armed = 2"
  by (simp_all add: armed_def idle_def fresh_def timer_defs round_double_zero)

subsection \<open>The Timer's reference count, call by call\<close>

lemma self_refcnt_Py_INCREF [simp]: "self_refcnt (Py_INCREF x w) = self_refcnt w"
  by (simp add: Py_INCREF_def)

lemma self_refcnt_Py_DECREF [simp]: "self_refcnt (Py_DECREF x w) = self_refcnt w"
  by (simp add: Py_DECREF_def)

lemma self_refcnt_Py_XDECREF [simp]: "self_refcnt (Py_XDECREF p w) = self_refcnt w"
  by (simp add: Py_XDECREF_def split: option.splits)

lemma self_refcnt_store [simp]: "self_refcnt (store a h w) = self_refcnt w"
  by (simp add: store_def)

lemma self_refcnt_PyMem_Free [simp]: "self_refcnt (PyMem_Free a w) = self_refcnt w"
  by (simp add: PyMem_Free_def)

text \<open>The destruction path does not touch the count.\<close>

lemma dealloc_keeps_refcnt: "self_refcnt (Timer_tp_dealloc w) = self_refcnt w"
  by (simp add: Timer_tp_dealloc_def Timer_tp_clear_def Let_def)

text \<open>Neither do \<^verbatim>\<open>stop\<close> and \<^verbatim>\<open>close\<close>; and \<^verbatim>\<open>close\<close> never raises.\<close>

lemma stop_keeps_refcnt: "self_refcnt (snd (Timer_func_stop env w)) = self_refcnt w"
  by (auto simp: Timer_func_stop_def uv_timer_stop_def deref_def
      split: sum.splits option.splits prod.splits if_splits)

lemma close_keeps_refcnt: "self_refcnt (snd (Timer_func_close w)) = self_refcnt w"
  by (auto simp: Timer_func_close_def uv_close_def deref_def Let_def
      split: sum.splits option.splits prod.splits if_splits)

lemma close_never_raises: "fst (Timer_func_close w) \<noteq> Raise e"
  by (simp add: Timer_func_close_def Let_def split: sum.splits)

text \<open>\<^verbatim>\<open>start\<close> takes one reference when it returns normally, and none otherwise.\<close>

lemma start_error_refcnt: "self_refcnt (snd (start_error u cb d e w)) = self_refcnt w"
  by (simp add: start_error_def Let_def split: option.splits)

lemma start_error_raises: "fst (start_error u cb d e w) = Raise e"
  by (simp add: start_error_def Let_def)

lemma start_native_refcnt:
  "self_refcnt (snd (start_native env a cb t r d w)) =
     (if fst (start_native env a cb t r d w) = Return () then self_refcnt w + 1
      else self_refcnt w)"
  by (auto simp: start_native_def uv_timer_init_def uv_timer_start_def deref_def Let_def
      start_error_refcnt start_error_raises Py_INCREF_self_def
      split: sum.splits option.splits prod.splits if_splits)

lemma start_refcnt:
  "self_refcnt (snd (Timer_func_start env args w)) =
     (if fst (Timer_func_start env args w) = Return () then self_refcnt w + 1
      else self_refcnt w)"
  by (auto simp: Timer_func_start_def Let_def start_native_refcnt PyMem_Malloc_def
      start_error_refcnt start_error_raises
      split: option.splits prod.splits if_splits)

text \<open>The close trampoline gives one reference back each time it runs to its end.\<close>

lemma on_timer_close_refcnt:
  "fst (on_timer_close p w) = Return () \<Longrightarrow>
     self_refcnt (snd (on_timer_close p w)) = self_refcnt w - 1"
  by (auto simp: on_timer_close_def Py_DECREF_self_def Let_def dealloc_keeps_refcnt
      split: option.splits objref.splits if_splits)

subsection \<open>close, twice\<close>

text \<open>
  C1 (the behaviour of the code). After \<^verbatim>\<open>Timer(loop); start(f1, 0.0, 0.0, d7)\<close>,
  two calls of \<^verbatim>\<open>close()\<close> both return normally, and both make a \<^verbatim>\<open>uv_close\<close>
  on the one native block: the close is requested twice. The loop then runs the close
  trampoline twice; the first run frees the block and the second one reads the freed block.
  When the second \<^verbatim>\<open>close()\<close> comes after the trampoline has run, its
  \<^verbatim>\<open>uv_close\<close> is made on the freed block.
\<close>

theorem close_twice_requests_twice:
  "fst (Timer_func_close armed) = Return () \<and>
   fst (Timer_func_close closed_once) = Return () \<and>
   uv_close_calls closed_twice = [1, 1] \<and>
   count_list (uv_close_calls closed_twice) 1 = 2 \<and>
   pending_close closed_twice = [1, 1] \<and>
   fst (loop_run_close closed_twice) = Return () \<and>
   heap (snd (loop_run_close closed_twice)) 1 = None \<and>
   fst (loop_run_close (snd (loop_run_close closed_twice))) = Fault UseAfterFree \<and>
   fst (loop_run_close closed_once) = Return () \<and>
   fst (Timer_func_close (snd (loop_run_close closed_once))) = Fault UseAfterFree"
  by (simp add: closed_once_def closed_twice_def scenario_defs timer_defs)

subsection \<open>After close\<close>

text \<open>
  C2 (the behaviour of the code). After \<^verbatim>\<open>Timer(loop); start(f1, 0.0, 0.0, d7);
  close()\<close> the active flag is still true, and \<^verbatim>\<open>stop()\<close> returns normally
  (\<^verbatim>\<open>Timer_func_close\<close> does not write the flag and \<^verbatim>\<open>Timer_func_stop\<close> does not
  read \<^verbatim>\<open>closed\<close>); \<^verbatim>\<open>start\<close> and \<^verbatim>\<open>again\<close> do fail. Once the loop has run
  the close trampoline, \<^verbatim>\<open>stop()\<close> hands the freed block to \<^verbatim>\<open>uv_timer_stop\<close>.
\<close>

theorem active_and_stop_after_close:
  "fst (Timer_func_close armed) = Return () \<and>
   closed (self closed_once) \<and>
   active (self closed_once) \<and>
   fst (Timer_func_stop ok_env closed_once) = Return () \<and>
   fst (Timer_func_start env args closed_once) = Raise TimerClosedError \<and>
   fst (Timer_func_again env closed_once) = Raise TimerClosedError \<and>
   fst (loop_run_close closed_once) = Return () \<and>
   active (self (snd (loop_run_close closed_once))) \<and>
   fst (Timer_func_stop env (snd (loop_run_close closed_once))) = Fault UseAfterFree"
  by (simp add: closed_once_def scenario_defs timer_defs)

subsection \<open>again\<close>

text \<open>
  C3 (the behaviour of the code). On a closed timer \<^verbatim>\<open>again()\<close> fails with the
  closed error. On a timer that was initialised and never started it hands the null
  \<^verbatim>\<open>uv_timer\<close> to \<^verbatim>\<open>uv_timer_again\<close>: no exception is raised, the null handle is
  accessed.
\<close>

theorem again_never_started_null:
  "fst (Timer_func_again env (snd (Timer_func_close idle))) = Raise TimerClosedError \<and>
   uv_timer (self idle) = None \<and>
   fst (Timer_func_again env idle) = Fault NullDereference"
  by (simp add: scenario_defs timer_defs)

subsection \<open>The keep-alive reference\<close>

text \<open>
  C4 (the behaviour of the code). In \<^verbatim>\<open>Timer(loop); start; stop; start; close\<close>
  followed by the close trampoline, every call returns normally. Each start allocates a
  block of its own and takes one reference on the Timer (1, 2, 2, 3); stop takes none;
  close requests the close of the second block only, and its trampoline gives one
  reference back. The count ends at 2, one above the count of the new object, nothing is
  pending, and the first block is still allocated and still points to the Timer.
\<close>

theorem keepalive_unbalanced_after_restart:
  "fst (Timer_func_stop ok_env armed) = Return () \<and>
   fst (Timer_func_start ok_env
          [PyFunction 1, PyFloat (Finite 0), PyFloat (Finite 0), PyOther 7] stopped) = Return () \<and>
   fst (Timer_func_close rearmed) = Return () \<and>
   fst (loop_run_close (snd (Timer_func_close rearmed))) = Return () \<and>
   self_refcnt fresh = 1 \<and> self_refcnt armed = 2 \<and> self_refcnt stopped = 2 \<and>
   self_refcnt rearmed = 3 \<and> self_refcnt rearmed_closed = 2 \<and>
   uv_timer (self armed) = Some 1 \<and> uv_timer (self rearmed) = Some 2 \<and>
   uv_close_calls rearmed_closed = [2] \<and> pending_close rearmed_closed = [] \<and>
   heap rearmed_closed 2 = None \<and>
   heap rearmed_closed 1 = Some \<lparr>h_data = Some TimerObject, h_scheduled = False,
                                  h_timeout = 0, h_repeat = 0, h_closing = False\<rparr>"
  by (simp add: stopped_def rearmed_def rearmed_closed_def scenario_defs timer_defs)

subsection \<open>A start that fails\<close>

text \<open>
  C5 (the behaviour of the code). On the stopped timer, which holds callback \<open>f1\<close>,
  data \<open>d7\<close> and the native block 1, \<^verbatim>\<open>start(f2, -1.0, 0.0, d8)\<close> fails with the
  value error and leaves the callback \<open>f2\<close> stored, without a reference (the count of
  \<open>f2\<close> is what it was, that of \<open>f1\<close> is one less); \<^verbatim>\<open>uv_timer\<close> is null although
  block 1 is still allocated; and \<open>d8\<close>, which was never stored, has lost a reference.
  When the same call has valid numbers and fails at the allocation, the data \<open>d8\<close> is
  left stored as well.
\<close>

theorem failed_start_not_rolled_back:
  "fst failed_restart = Raise (ValueError ''a positive value or zero is required'') \<and>
   callback (self stopped) = Some (PyFunction 1) \<and>
   callback (self (snd failed_restart)) = Some (PyFunction 2) \<and>
   obj_refcnt stopped (PyFunction 1) = 2 \<and>
   obj_refcnt (snd failed_restart) (PyFunction 1) = 1 \<and>
   obj_refcnt stopped (PyFunction 2) = 1 \<and>
   obj_refcnt (snd failed_restart) (PyFunction 2) = 1 \<and>
   uv_timer (self stopped) = Some 1 \<and>
   uv_timer (self (snd failed_restart)) = None \<and>
   heap (snd failed_restart) 1 = heap stopped 1 \<and> heap stopped 1 \<noteq> None \<and>
   data (self (snd failed_restart)) = Some (PyOther 7) \<and>
   obj_refcnt stopped (PyOther 8) = 1 \<and>
   obj_refcnt (snd failed_restart) (PyOther 8) = 0 \<and>
   fst (Timer_func_start (ok_env\<lparr>malloc_fails := True\<rparr>)
          [PyFunction 2, PyFloat (Finite 0), PyFloat (Finite 0), PyOther 8] stopped)
     = Raise MemoryError \<and>
   data (self (snd (Timer_func_start (ok_env\<lparr>malloc_fails := True\<rparr>)
                      [PyFunction 2, PyFloat (Finite 0), PyFloat (Finite 0), PyOther 8] stopped)))
     = Some (PyOther 8) \<and>
   callback (self (snd (Timer_func_start (ok_env\<lparr>malloc_fails := True\<rparr>)
                      [PyFunction 2, PyFloat (Finite 0), PyFloat (Finite 0), PyOther 8] stopped)))
     = Some (PyFunction 2)"
  by (simp add: stopped_def failed_restart_def scenario_defs timer_defs)

subsection \<open>start with None\<close>

text \<open>
  C6 (the behaviour of the code). On the initialised, idle timer
  \<^verbatim>\<open>start(None, t, r)\<close> fails for every \<open>t\<close> and \<open>r\<close>: \<^verbatim>\<open>Py_None\<close> is not
  callable, and \<^verbatim>\<open>Timer_func_start\<close> raises the type error whose message reads
  ``a callable or None is required''. The timer stays as it was. The trampoline is
  ready for a stored \<^verbatim>\<open>Py_None\<close>: were it the callback of the armed timer, a firing
  would run no user code.
\<close>

theorem start_none_rejected:
  "Timer_func_start env [Py_None, PyFloat t, PyFloat r] idle
     = (Raise (TypeError ''a callable or None is required''), idle) \<and>
   \<not> closed (self idle) \<and> \<not> active (self idle) \<and>
   fst (on_timer_callback user (Some 1) 0
          (armed\<lparr>self := (self armed)\<lparr>callback := Some Py_None\<rparr>\<rparr>)) = Return () \<and>
   invoked (snd (on_timer_callback user (Some 1) 0
                   (armed\<lparr>self := (self armed)\<lparr>callback := Some Py_None\<rparr>\<rparr>))) = []"
  by (simp add: scenario_defs timer_defs on_timer_callback_def)

subsection \<open>repeat without a native handle\<close>

text \<open>
  C7 (the behaviour of the code). On the initialised timer that was never started,
  which is not closed and whose \<^verbatim>\<open>uv_timer\<close> is null, reading \<^verbatim>\<open>repeat\<close> and
  writing \<^verbatim>\<open>repeat = 0.0\<close> raise no exception: both hand the null pointer to the loop
  library, which accesses it.
\<close>

theorem repeat_never_started_null:
  "\<not> closed (self idle) \<and> uv_timer (self idle) = None \<and>
   fst (Timer_repeat_get idle) = Fault NullDereference \<and>
   fst (Timer_repeat_set (Some (PyFloat (Finite 0))) idle) = Fault NullDereference"
  by (simp add: scenario_defs timer_defs)

subsection \<open>The round trip of repeat\<close>

text \<open>
  C8 (as stated, refuted). On the armed timer, which is not closed and has its native
  block: for the non-negative finite double \<open>10 ^ 19\<close> the product with 1000 is
  \<open>10 ^ 22\<close>, which no \<^verbatim>\<open>int64_t\<close> holds, so the conversion in
  \<^verbatim>\<open>Timer_repeat_set\<close> is undefined and nothing is read back; and for the double
  \<open>9007199254741.125\<close>, a whole number of milliseconds, the product
  \<open>9007199254741125\<close> is not a double and is rounded to \<open>9007199254741124\<close>, so
  that \<^verbatim>\<open>repeat\<close> reads \<open>9007199254741.123046875\<close>.
\<close>

theorem repeat_round_trip_counterexample:
  "\<not> closed (self armed) \<and> uv_timer (self armed) = Some 1 \<and> heap armed 1 \<noteq> None \<and>
   is_double (10 ^ 19) \<and> (0::real) \<le> 10 ^ 19 \<and>
   fst (Timer_repeat_set (Some (PyFloat (Finite (10 ^ 19)))) armed) = Fault CastOutOfRange \<and>
   is_double (72057594037929 / 8) \<and> (0::real) \<le> 72057594037929 / 8 \<and>
   72057594037929 / 8 * 1000 = (of_int 9007199254741125 :: real) \<and>
   fst (Timer_repeat_set (Some (PyFloat (Finite (72057594037929 / 8)))) armed) = Return () \<and>
   fst (Timer_repeat_get
          (snd (Timer_repeat_set (Some (PyFloat (Finite (72057594037929 / 8)))) armed)))
     = Return (PyFloat (Finite (72057594037929 / 8 - 1 / 512))) \<and>
   (72057594037929 / 8 - 1 / 512 :: real) \<noteq> 72057594037929 / 8"
proof -
  have big: "fst (Timer_repeat_set (Some (PyFloat (Finite (10 ^ 19)))) armed)
               = Fault CastOutOfRange"
    by (simp add: Timer_repeat_set_def PyFloat_AsDouble_def lt_zero_def armed_self
        big_times to_int64_def)
  have cast: "to_int64 (Finite 9007199254741124) = Some (word_of_int 9007199254741124)"
    by (simp add: to_int64_def)
  have set: "Timer_repeat_set (Some (PyFloat (Finite (72057594037929 / 8)))) armed
               = (Return (),
                  store 1 \<lparr>h_data = Some TimerObject, h_scheduled = True, h_timeout = 0,
                           h_repeat = word_of_int 9007199254741124, h_closing = False\<rparr> armed)"
    by (simp add: Timer_repeat_set_def PyFloat_AsDouble_def lt_zero_def armed_self
        armed_native tie_times cast uv_timer_set_repeat_def deref_def)
  have get: "fst (Timer_repeat_get
                   (store 1 \<lparr>h_data = Some TimerObject, h_scheduled = True, h_timeout = 0,
                            h_repeat = word_of_int 9007199254741124, h_closing = False\<rparr> armed))
               = Return (PyFloat (Finite (4611686018427455 / 512)))"
    by (simp add: Timer_repeat_get_def uv_timer_get_repeat_def deref_def store_def armed_self
        of_int64_def sint_int64 tie_back tie_div)
  show ?thesis
    using big set get big_is_double tie_is_double
    by (simp add: armed_self armed_native)
qed

text \<open>
  C8 (amended). On a timer that is not closed and whose native block exists, for every
  non-negative double \<open>x\<close> whose product with 1000, rounded to a double, is a finite
  \<open>y\<close> below \<open>2 ^ 63\<close>: writing \<^verbatim>\<open>repeat = x\<close> returns normally, and reading
  \<^verbatim>\<open>repeat\<close> then returns the whole milliseconds of \<open>y\<close> divided by 1000 in
  double arithmetic; that value is \<open>x\<close> itself whenever \<open>x\<close> is a whole number \<open>k\<close>
  of milliseconds with \<open>k\<close> at most \<open>2 ^ 53\<close>.
\<close>

theorem repeat_round_trip:
  assumes "\<not> closed (self w)" and "uv_timer (self w) = Some a" and "heap w a = Some h"
    and "is_double x" and "0 \<le> x"
    and "times_1000 (Finite x) = Finite y" and "y < 2 ^ 63"
  shows "fst (Timer_repeat_set (Some (PyFloat (Finite x))) w) = Return () \<and>
         fst (Timer_repeat_get (snd (Timer_repeat_set (Some (PyFloat (Finite x))) w)))
           = Return (PyFloat (div_1000 (round_double (of_int \<lfloor>y\<rfloor>)))) \<and>
         (x * 1000 = of_int k \<and> k \<le> 2 ^ 53 \<longrightarrow>
          fst (Timer_repeat_get (snd (Timer_repeat_set (Some (PyFloat (Finite x))) w)))
            = Return (PyFloat (Finite x)))"
proof -
  have y0: "0 \<le> y"
    using assms(5,6) round_double_nonneg [of "x * 1000" y] by (simp add: times_1000_def)
  have fl: "0 \<le> \<lfloor>y\<rfloor>" "\<lfloor>y\<rfloor> < 2 ^ 63"
    using y0 assms(7) by (simp_all add: floor_less_iff)
  have t: "to_int64 (times_1000 (Finite x)) = Some (word_of_int \<lfloor>y\<rfloor>)"
    using y0 fl by (simp add: assms(6) to_int64_def)
  have set: "Timer_repeat_set (Some (PyFloat (Finite x))) w
               = (Return (), store a (h\<lparr>h_repeat := word_of_int \<lfloor>y\<rfloor>\<rparr>) w)"
    using assms(1-3,5) t
    by (simp add: Timer_repeat_set_def PyFloat_AsDouble_def lt_zero_def
        uv_timer_set_repeat_def deref_def)
  have get: "fst (Timer_repeat_get (store a (h\<lparr>h_repeat := word_of_int \<lfloor>y\<rfloor>\<rparr>) w))
               = Return (PyFloat (div_1000 (round_double (of_int \<lfloor>y\<rfloor>))))"
    using assms(1,2) fl
    by (simp add: Timer_repeat_get_def uv_timer_get_repeat_def deref_def store_def
        of_int64_def sint_int64)
  have exact: "div_1000 (round_double (of_int \<lfloor>y\<rfloor>)) = Finite x"
    if "x * 1000 = of_int k" "k \<le> 2 ^ 53"
  proof -
    have k0: "0 \<le> k"
      using assms(5) that(1) by (metis mult_nonneg_nonneg of_int_0_le_iff zero_le_numeral)
    have "Finite y = round_double (of_int k)"
      using assms(6) that(1) by (simp add: times_1000_def)
    then have "y = of_int k" using round_double_int [OF k0 that(2)] by simp
    then have "round_double (of_int \<lfloor>y\<rfloor>) = Finite (of_int k)"
      using round_double_int [OF k0 that(2)] by simp
    moreover have "of_int k / 1000 = x" by (simp flip: that(1))
    ultimately show ?thesis using assms(4) by (simp add: div_1000_def is_double_def)
  qed
  show ?thesis using set get exact by simp
qed

text \<open>
  On the armed timer: 1.5 is read back as 1.5, and 1.50048828125, whose product with
  1000 is 1500.48828125, is read back as 1.5.
\<close>

theorem repeat_round_trip_witness:
  "\<not> closed (self armed) \<and> uv_timer (self armed) = Some 1 \<and>
   heap armed 1 = Some \<lparr>h_data = Some TimerObject, h_scheduled = True, h_timeout = 0,
                         h_repeat = 0, h_closing = False\<rparr> \<and>
   is_double (3 / 2) \<and> (0::real) \<le> 3 / 2 \<and>
   times_1000 (Finite (3 / 2)) = Finite 1500 \<and> (1500::real) < 2 ^ 63 \<and>
   3 / 2 * 1000 = (of_int 1500 :: real) \<and> (1500::int) \<le> 2 ^ 53 \<and>
   fst (Timer_repeat_set (Some (PyFloat (Finite (3 / 2)))) armed) = Return () \<and>
   fst (Timer_repeat_get (snd (Timer_repeat_set (Some (PyFloat (Finite (3 / 2)))) armed)))
     = Return (PyFloat (Finite (3 / 2))) \<and>
   is_double (3073 / 2048) \<and>
   times_1000 (Finite (3073 / 2048)) = Finite (384125 / 256) \<and>
   fst (Timer_repeat_get (snd (Timer_repeat_set (Some (PyFloat (Finite (3073 / 2048)))) armed)))
     = Return (PyFloat (Finite (3 / 2)))"
proof -
  have c: "\<not> closed (self armed)" and u: "uv_timer (self armed) = Some 1"
    and h: "heap armed 1 = Some \<lparr>h_data = Some TimerObject, h_scheduled = True,
                                  h_timeout = 0, h_repeat = 0, h_closing = False\<rparr>"
    by (simp_all add: armed_self armed_native)
  have x0: "(0::real) \<le> 3 / 2" and y63: "(1500::real) < 2 ^ 63" by simp_all
  have z0: "(0::real) \<le> 3073 / 2048" and z63: "(384125 / 256 :: real) < 2 ^ 63" by simp_all
  have k: "3 / 2 * 1000 = (of_int 1500 :: real)" "(1500::int) \<le> 2 ^ 53" by simp_all
  note one = repeat_round_trip [OF c u h half_is_double x0 half_times y63, of 1500]
  note two = repeat_round_trip [OF c u h frac_is_double z0 frac_times z63, of 0]
  show ?thesis
    using one two k c u h half_is_double frac_is_double half_times frac_times frac_read
    by simp
qed

subsection \<open>start on an armed timer\<close>

text \<open>
  While the active flag is set on a timer that is not closed, \<^verbatim>\<open>start\<close> fails with
  the already-active error and changes nothing.
\<close>

lemma start_active_fails_unchanged:
  assumes "active (self w)" and "\<not> closed (self w)"
  shows "Timer_func_start env args w = (Raise TimerAlreadyActiveError, w)"
  using assms by (simp add: Timer_func_start_def)

lemma round_double_1000: "round_double 1000 = Finite 1000"
  using round_double_int [of 1000] by simp

lemma round_double_5000: "round_double 5000 = Finite 5000"
  using round_double_int [of 5000] by simp

text \<open>
  C9 (the behaviour of the code). Right after \<^verbatim>\<open>Timer(loop); start(f1, 0.0, 1.0, d7)\<close>
  a second \<^verbatim>\<open>start\<close> fails with the already-active error and changes nothing. After
  \<^verbatim>\<open>stop(); again()\<close>, which all return normally, the timer is armed again: it is not
  closed and its native block 1 is scheduled with the repeat value as timeout; but
  \<^verbatim>\<open>Timer_func_again\<close> does not write the active flag that \<^verbatim>\<open>Timer_func_stop\<close>
  cleared. On this armed timer \<^verbatim>\<open>start(f2, 5.0, 1.0, d8)\<close> returns normally: it
  stores the callback \<open>f2\<close> and the data \<open>d8\<close> in place of \<open>f1\<close> and \<open>d7\<close>,
  allocates and schedules a second block and takes a second reference, while block 1 stays
  scheduled and still points to the Timer.
\<close>

theorem start_after_again_overwrites:
  "fst (Timer_func_start ok_env
          [PyFunction 1, PyFloat (Finite 0), PyFloat (Finite 1), PyOther 7] idle) = Return () \<and>
   Timer_func_start ok_env
     [PyFunction 2, PyFloat (Finite 5), PyFloat (Finite 1), PyOther 8] repeating
     = (Raise TimerAlreadyActiveError, repeating) \<and>
   fst (Timer_func_stop ok_env repeating) = Return () \<and>
   fst (Timer_func_again ok_env (snd (Timer_func_stop ok_env repeating))) = Return () \<and>
   \<not> closed (self rearmed_by_again) \<and>
   \<not> active (self rearmed_by_again) \<and>
   uv_timer (self rearmed_by_again) = Some 1 \<and>
   heap rearmed_by_again 1 = Some \<lparr>h_data = Some TimerObject, h_scheduled = True,
                                     h_timeout = 1000, h_repeat = 1000, h_closing = False\<rparr> \<and>
   callback (self rearmed_by_again) = Some (PyFunction 1) \<and>
   data (self rearmed_by_again) = Some (PyOther 7) \<and>
   self_refcnt rearmed_by_again = 2 \<and>
   fst second_start = Return () \<and>
   callback (self (snd second_start)) = Some (PyFunction 2) \<and>
   data (self (snd second_start)) = Some (PyOther 8) \<and>
   uv_timer (self (snd second_start)) = Some 2 \<and>
   self_refcnt (snd second_start) = 3 \<and>
   heap (snd second_start) 1 = Some \<lparr>h_data = Some TimerObject, h_scheduled = True,
                                       h_timeout = 1000, h_repeat = 1000, h_closing = False\<rparr> \<and>
   heap (snd second_start) 2 = Some \<lparr>h_data = Some TimerObject, h_scheduled = True,
                                       h_timeout = 5000, h_repeat = 1000, h_closing = False\<rparr>"
  by (simp add: repeating_def rearmed_by_again_def second_start_def scenario_defs timer_defs
      round_double_1000 round_double_5000)

subsection \<open>close on a timer that was never started\<close>

text \<open>
  C10. \<^verbatim>\<open>close\<close> on a timer that has no native handle (as after
  initialisation, before any start) and no close pending returns normally and only sets
  the closed flag: no \<^verbatim>\<open>uv_close\<close> is made, nothing is pending for the loop, so a
  turn of the loop runs no close trampoline, the Timer's reference count and the native
  blocks are as before; and \<^verbatim>\<open>start\<close>, \<^verbatim>\<open>again\<close> and both \<^verbatim>\<open>repeat\<close>
  accessors then fail with the closed error.
\<close>

theorem close_never_started:
  assumes "uv_timer (self w) = None" and "pending_close w = []"
  shows "Timer_func_close w = (Return (), w\<lparr>self := (self w)\<lparr>closed := True\<rparr>\<rparr>) \<and>
         closed (self (snd (Timer_func_close w))) \<and>
         uv_close_calls (snd (Timer_func_close w)) = uv_close_calls w \<and>
         pending_close (snd (Timer_func_close w)) = [] \<and>
         loop_run_close (snd (Timer_func_close w)) = (Return (), snd (Timer_func_close w)) \<and>
         self_refcnt (snd (Timer_func_close w)) = self_refcnt w \<and>
         heap (snd (Timer_func_close w)) = heap w \<and>
         fst (Timer_func_start env args (snd (Timer_func_close w))) = Raise TimerClosedError \<and>
         fst (Timer_func_again env (snd (Timer_func_close w))) = Raise TimerClosedError \<and>
         fst (Timer_repeat_get (snd (Timer_func_close w))) = Raise TimerClosedError \<and>
         fst (Timer_repeat_set v (snd (Timer_func_close w))) = Raise TimerClosedError"
  using assms
  by (simp add: Timer_func_close_def Timer_func_start_def Timer_func_again_def
      Timer_repeat_get_def Timer_repeat_set_def loop_run_close_def Let_def)

theorem close_never_started_witness:
  "uv_timer (self idle) = None \<and> pending_close idle = [] \<and>
   fst (Timer_func_close idle) = Return () \<and>
   closed (self (snd (Timer_func_close idle))) \<and>
   uv_close_calls (snd (Timer_func_close idle)) = [] \<and>
   self_refcnt (snd (Timer_func_close idle)) = 1 \<and>
   fst (Timer_func_start ok_env
          [PyFunction 1, PyFloat (Finite 0), PyFloat (Finite 0)]
          (snd (Timer_func_close idle))) = Raise TimerClosedError"
proof -
  have u: "uv_timer (self idle) = None" and p: "pending_close idle = []"
    by (simp_all add: idle_self idle_native)
  show ?thesis
    using close_never_started [OF u p, of ok_env
        "[PyFunction 1, PyFloat (Finite 0), PyFloat (Finite 0)]" None] u p
    by (auto simp: idle_native)
qed

end
